theory Spec2Isabelle
  imports Main "HOL-Library.Word"
begin

section \<open>Data model\<close>

text \<open>
  A \<open>Frame\<close> is one step of a stack trace, with the three fields of the Go struct.
  \<open>Line\<close> is a Go \<open>int\<close>; the package never computes with it (it is stored and
  printed), so it is an unbounded integer here.
\<close>

record Frame =
  Func :: string
  Line :: int
  Path :: string

text \<open>
  Values of the Go interface type \<open>error\<close>. An interface value is \<open>nil\<close> or holds a
  dynamic value; the package tells dynamic values apart only by the type assertion
  \<open>err.(Error)\<close>, which succeeds exactly when the dynamic type has the three methods
  \<open>Error()\<close>, \<open>StackTrace()\<close> and \<open>Unwrap()\<close> of the exported interface \<open>Error\<close>.

  \<^item> \<open>NilErr\<close> is the nil interface value.
  \<^item> \<open>Plain s\<close> is a value of a type outside the package that has only \<open>Error()\<close>,
    which returns \<open>s\<close> (what \<open>fmt.Errorf\<close> and \<open>errors.New\<close> build).
  \<^item> \<open>Traced t\<close> is a value whose type has all three methods: either a pointer to this
    package's \<open>errorData\<close> (\<open>Ptr\<close>), or a value of a type outside the package that
    implements the exported interface (\<open>Foreign\<close>, with the results of its three
    methods).
  The methods of values of types outside the package are taken to be pure and total.

  \<open>errorData\<close> is unexported and its two allocation sites (\<open>CustomError\<close> and
  \<open>trace\<close>) return the address of a fresh struct, so a pointer to it is never nil and
  no field is written after construction: the pointer is modelled by the struct it
  points to. A slice of frames is modelled by the sequence of its elements (a nil slice
  and an empty one are both \<open>[]\<close>).
\<close>

datatype error = NilErr | Plain string | Traced Error
  and Error = Ptr errorData | Foreign string "Frame list" error
  and errorData = ErrorData (err: error) (message: string) (frames: "Frame list")

text \<open>
  The ways a call of the package can end without returning: the two run-time panics it can
  raise, and the fatal error with which the run-time system stops the program when the
  operating system provides no memory for an allocation.
\<close>

datatype panic = NilDereference | MakesliceCapOutOfRange | OutOfMemory

section \<open>The collaborators\<close>

text \<open>
  The call stack as \<open>runtime.Caller\<close> reports it while \<open>trace\<close> runs: entry \<open>i\<close> of
  \<open>stack\<close> is the answer for depth \<open>i\<close>, \<open>Some (pc, path, line)\<close> when the entry is
  recovered and \<open>None\<close> when it is not; past the end of the list nothing is recovered.
  \<open>funcs\<close> is the table behind \<open>runtime.FuncForPC\<close>: a program counter without an
  entry gives a nil \<open>*Func\<close>, whose \<open>Name()\<close> is the empty string.
  \<open>maxAlloc\<close> is the run-time system's constant of that name, the largest size in
  bytes it accepts for one allocation (\<open>2 ^ 48\<close> on linux/amd64). \<open>memAvail\<close> is
  the largest size in bytes for which the operating system provides memory at this call.
\<close>

record runtime =
  stack :: "(nat \<times> string \<times> int) option list"
  funcs :: "(nat \<times> string) list"
  maxAlloc :: nat
  memAvail :: nat

definition runtime_Caller :: "runtime \<Rightarrow> nat \<Rightarrow> (nat \<times> string \<times> int) option" where
  "runtime_Caller rt skip = (if skip < length (stack rt) then stack rt ! skip else None)"

definition FuncForPC_Name :: "runtime \<Rightarrow> nat \<Rightarrow> string" where
  "FuncForPC_Name rt pc = (case map_of (funcs rt) pc of None \<Rightarrow> [] | Some n \<Rightarrow> n)"

text \<open>
  \<open>fmt.Errorf\<close> returns a non-nil error of a type of package \<open>fmt\<close>, which has no
  \<open>StackTrace\<close> method; its text is what \<open>fmt.Sprintf\<close> gives for the same arguments.
  The formatter itself is a parameter \<open>sprintf\<close> of the functions that use it.
\<close>

definition fmt_Errorf :: "(string \<Rightarrow> 'a list \<Rightarrow> string) \<Rightarrow> string \<Rightarrow> 'a list \<Rightarrow> error" where
  "fmt_Errorf sprintf format args = Plain (sprintf format args)"

text \<open>
  \<open>make([]Frame, 0, DefaultCap)\<close> on a 64-bit platform. \<open>DefaultCap\<close> is a Go
  \<open>int\<close>, a 64-bit word read as a signed number. A \<open>Frame\<close> takes 40 bytes: two
  string headers of 16 bytes and an \<open>int\<close> of 8. The run-time system's \<open>makeslice\<close>
  multiplies the element size by the capacity converted to \<open>uintptr\<close>, and panics with
  \<open>makeslice: cap out of range\<close> when the product overflows 64 bits, when it exceeds
  \<open>maxAlloc\<close>, or when the length, here 0, exceeds the capacity, which is when the
  capacity is negative. A capacity that passes this check is allocated; when the
  operating system does not provide that much memory the program stops with the fatal error
  \<open>out of memory\<close>. The other allocations of the package have sizes given by the data
  at hand, not by a variable a caller sets, and are taken to succeed.
\<close>

definition sizeof_Frame :: nat where
  "sizeof_Frame = 40"

definition make_frames :: "runtime \<Rightarrow> 64 word \<Rightarrow> panic + Frame list" where
  "make_frames rt c =
     (let product = sizeof_Frame * unat c;
          overflow = (2 ^ 64 \<le> product);
          mem = product mod 2 ^ 64
      in if overflow \<or> maxAlloc rt < mem \<or> sint c < 0
         then Inl MakesliceCapOutOfRange
         else if memAvail rt < mem then Inl OutOfMemory
         else Inr [])"

text \<open>The two control characters of the rendering, and \<open>%d\<close> of a Go \<open>int\<close>.\<close>

definition nl :: string where
  "nl = [CHR 0x0A]"

definition tab :: string where
  "tab = [CHR 0x09]"

definition digit :: "nat \<Rightarrow> char" where
  "digit n = ''0123456789'' ! n"

fun decimal :: "nat \<Rightarrow> string" where
  "decimal n = (if n < 10 then [digit n] else decimal (n div 10) @ [digit (n mod 10)])"

declare decimal.simps [simp del]

definition fmt_d :: "int \<Rightarrow> string" where
  "fmt_d i = (if i < 0 then ''-'' @ decimal (nat (- i)) else decimal (nat i))"

section \<open>The package\<close>

text \<open>\<open>CustomError\<close>: the struct literal leaves \<open>message\<close> at its zero value.\<close>

definition CustomError :: "error \<Rightarrow> Frame list \<Rightarrow> error" where
  "CustomError e fs = Traced (Ptr (ErrorData e [] fs))"

text \<open>
  The loop of \<open>trace\<close>. \<open>skip\<close> starts at 2 at every call site and only grows, so it
  is a natural number. The loop ends at the first depth that is not recovered.
\<close>

function trace_loop :: "runtime \<Rightarrow> nat \<Rightarrow> Frame list \<Rightarrow> Frame list" where
  "trace_loop rt skip fs =
     (case runtime_Caller rt skip of
        None \<Rightarrow> fs
      | Some (pc, path, line) \<Rightarrow>
          trace_loop rt (skip + 1)
            (fs @ [\<lparr>Func = FuncForPC_Name rt pc, Line = line, Path = path\<rparr>]))"
  by pat_completeness auto
termination
  by (relation "measure (\<lambda>(rt, skip, fs). length (stack rt) - skip)")
     (auto simp: runtime_Caller_def split: if_splits)

declare trace_loop.simps [simp del]

text \<open>
  \<open>trace\<close> reads the package variable \<open>DefaultCap\<close>, which any caller may assign; it
  is the first parameter of every function that reaches \<open>trace\<close>.
\<close>

definition trace :: "64 word \<Rightarrow> runtime \<Rightarrow> error \<Rightarrow> string \<Rightarrow> nat \<Rightarrow> panic + error" where
  "trace DefaultCap rt e msg skip =
     (case make_frames rt DefaultCap of
        Inl p \<Rightarrow> Inl p
      | Inr fs0 \<Rightarrow> Inr (Traced (Ptr (ErrorData e msg (trace_loop rt skip fs0)))))"

definition Errorf ::
  "(string \<Rightarrow> 'a list \<Rightarrow> string) \<Rightarrow> 64 word \<Rightarrow> runtime \<Rightarrow> string \<Rightarrow> 'a list \<Rightarrow> panic + error" where
  "Errorf sprintf DefaultCap rt msg args = trace DefaultCap rt (fmt_Errorf sprintf msg args) [] 2"

definition New ::
  "(string \<Rightarrow> 'a list \<Rightarrow> string) \<Rightarrow> 64 word \<Rightarrow> runtime \<Rightarrow> string \<Rightarrow> panic + error" where
  "New sprintf DefaultCap rt msg = trace DefaultCap rt (fmt_Errorf sprintf msg []) [] 2"

definition Newf ::
  "(string \<Rightarrow> 'a list \<Rightarrow> string) \<Rightarrow> 64 word \<Rightarrow> runtime \<Rightarrow> string \<Rightarrow> 'a list \<Rightarrow> panic + error" where
  "Newf sprintf DefaultCap rt format a = trace DefaultCap rt (fmt_Errorf sprintf format a) [] 2"

text \<open>The type assertion \<open>e, ok := err.(Error)\<close>; \<open>None\<close> is \<open>ok = false\<close>.\<close>

fun assert_Error :: "error \<Rightarrow> Error option" where
  "assert_Error (Traced t) = Some t"
| "assert_Error NilErr = None"
| "assert_Error (Plain s) = None"

definition Wrap :: "64 word \<Rightarrow> runtime \<Rightarrow> error \<Rightarrow> string \<Rightarrow> panic + error" where
  "Wrap DefaultCap rt e msg =
     (if e = NilErr then Inr NilErr
      else case assert_Error e of
             Some t \<Rightarrow> Inr (Traced t)
           | None \<Rightarrow> trace DefaultCap rt e msg 2)"

definition Wrapf ::
  "(string \<Rightarrow> 'a list \<Rightarrow> string) \<Rightarrow> 64 word \<Rightarrow> runtime \<Rightarrow> error \<Rightarrow> string \<Rightarrow> 'a list \<Rightarrow> panic + error" where
  "Wrapf sprintf DefaultCap rt e format a = Wrap DefaultCap rt e (sprintf format a)"

text \<open>The methods of \<open>*errorData\<close>, and the calls through the interface \<open>Error\<close>.\<close>

definition errorData_StackTrace :: "errorData \<Rightarrow> Frame list" where
  "errorData_StackTrace d = frames d"

definition errorData_Unwrap :: "errorData \<Rightarrow> error" where
  "errorData_Unwrap d = err d"

fun Error_StackTrace :: "Error \<Rightarrow> Frame list" where
  "Error_StackTrace (Ptr d) = errorData_StackTrace d"
| "Error_StackTrace (Foreign s fs inner) = fs"

fun Error_Unwrap :: "Error \<Rightarrow> error" where
  "Error_Unwrap (Ptr d) = errorData_Unwrap d"
| "Error_Unwrap (Foreign s fs inner) = inner"

definition Unwrap :: "error \<Rightarrow> error" where
  "Unwrap e =
     (if e = NilErr then NilErr
      else case assert_Error e of
             None \<Rightarrow> e
           | Some t \<Rightarrow> Error_Unwrap t)"

definition StackTrace :: "error \<Rightarrow> Frame list" where
  "StackTrace e = (case assert_Error e of None \<Rightarrow> [] | Some t \<Rightarrow> Error_StackTrace t)"

definition Frame_String :: "Frame \<Rightarrow> string" where
  "Frame_String f = Path f @ '':'' @ fmt_d (Line f) @ '' '' @ Func f @ ''()''"

text \<open>
  The \<open>for ... range\<close> loop of \<open>(*errorData).Error\<close>; its state is the builder's
  content and the flag \<open>isFirstFrame\<close>.
\<close>

fun write_frames :: "Frame list \<Rightarrow> string \<times> bool \<Rightarrow> string \<times> bool" where
  "write_frames [] st = st"
| "write_frames (frame # rest) (builder, isFirstFrame) =
     write_frames rest
       ((if \<not> isFirstFrame then builder @ nl else builder) @ tab @ Frame_String frame, False)"

text \<open>
  \<open>Error()\<close> called on an interface value of type \<open>error\<close>, on one of type \<open>Error\<close>,
  and the method of \<open>*errorData\<close>. Calling a method on the nil interface value panics,
  which is what \<open>e.err.Error()\<close> does when the stored original is nil.
\<close>

fun error_Error :: "error \<Rightarrow> panic + string"
  and Error_Error :: "Error \<Rightarrow> panic + string"
  and errorData_Error :: "errorData \<Rightarrow> panic + string" where
  "error_Error NilErr = Inl NilDereference"
| "error_Error (Plain s) = Inr s"
| "error_Error (Traced t) = Error_Error t"
| "Error_Error (Ptr d) = errorData_Error d"
| "Error_Error (Foreign s fs inner) = Inr s"
| "errorData_Error (ErrorData e msg fs) =
     (let builder = (if msg \<noteq> [] then msg @ nl else [])
      in case error_Error e of
           Inl p \<Rightarrow> Inl p
         | Inr s \<Rightarrow>
             Inr (fst (write_frames (errorData_StackTrace (ErrorData e msg fs))
                         (builder @ s @ nl, True))))"

section \<open>Notions used to state the properties\<close>

text \<open>
  Stack capture as the specification words it: query the collaborator at increasing depth
  from \<open>skipFrames\<close> on, turn each recovered entry into a frame, and stop at the first
  depth that is not recovered.
\<close>

definition frame_of :: "runtime \<Rightarrow> nat \<times> string \<times> int \<Rightarrow> Frame" where
  "frame_of rt c =
     (case c of (pc, path, line) \<Rightarrow> \<lparr>Func = FuncForPC_Name rt pc, Line = line, Path = path\<rparr>)"

definition spec_capture :: "runtime \<Rightarrow> nat \<Rightarrow> Frame list" where
  "spec_capture rt skipFrames =
     map (frame_of rt) (map the (takeWhile (\<lambda>c. c \<noteq> None) (drop skipFrames (stack rt))))"

text \<open>
  The values of \<open>DefaultCap\<close> that are in range as a capacity for frames: not negative,
  and with a size in bytes that fits 64 bits and does not exceed \<open>maxAlloc\<close>. Such a
  value can be allocated when the operating system provides memory of that size.
\<close>

definition cap_in_range :: "runtime \<Rightarrow> 64 word \<Rightarrow> bool" where
  "cap_in_range rt c \<longleftrightarrow>
     0 \<le> sint c \<and> sizeof_Frame * unat c < 2 ^ 64 \<and> sizeof_Frame * unat c \<le> maxAlloc rt"

definition cap_allocatable :: "runtime \<Rightarrow> 64 word \<Rightarrow> bool" where
  "cap_allocatable rt c \<longleftrightarrow> cap_in_range rt c \<and> sizeof_Frame * unat c \<le> memAvail rt"

text \<open>Pieces of text with a separator between consecutive ones and none at the end.\<close>

fun spec_join :: "string \<Rightarrow> string list \<Rightarrow> string" where
  "spec_join sep [] = []"
| "spec_join sep [x] = x"
| "spec_join sep (x # y # ys) = x @ sep @ spec_join sep (y # ys)"

text \<open>
  An error has a text when following the stored originals of this package's values never
  arrives at nil: these are the values on which \<open>Error()\<close> can be called.
\<close>

fun error_has_text :: "error \<Rightarrow> bool"
  and Error_has_text :: "Error \<Rightarrow> bool"
  and errorData_has_text :: "errorData \<Rightarrow> bool" where
  "error_has_text NilErr = False"
| "error_has_text (Plain s) = True"
| "error_has_text (Traced t) = Error_has_text t"
| "Error_has_text (Ptr d) = errorData_has_text d"
| "Error_has_text (Foreign s fs inner) = True"
| "errorData_has_text (ErrorData e msg fs) = error_has_text e"

text \<open>
  Two call stacks for concrete runs. In \<open>stack_at_f\<close> the function \<open>main.f\<close>, called by
  \<open>main.g\<close>, has called \<open>Wrap\<close>; in \<open>stack_at_h\<close> it is \<open>main.h\<close>, called from
  a place the run-time system does not recover. Both are on linux/amd64, with 8 GiB to
  allocate.
\<close>

definition stack_at_f :: runtime where
  "stack_at_f =
     \<lparr>stack = [Some (1, ''/tracerr/error.go'', 144), Some (2, ''/tracerr/error.go'', 66),
               Some (3, ''/a.go'', 10), Some (4, ''/a.go'', 20)],
      funcs = [(1, ''tracerr.trace''), (2, ''tracerr.Wrap''), (3, ''main.f''), (4, ''main.g'')],
      maxAlloc = 2 ^ 48, memAvail = 2 ^ 33\<rparr>"

definition stack_at_h :: runtime where
  "stack_at_h =
     \<lparr>stack = [Some (1, ''/tracerr/error.go'', 144), Some (2, ''/tracerr/error.go'', 66),
               Some (5, ''/b.go'', 7), None, Some (6, ''/b.go'', 99)],
      funcs = [(1, ''tracerr.trace''), (2, ''tracerr.Wrap''), (6, ''main.main'')],
      maxAlloc = 2 ^ 48, memAvail = 2 ^ 33\<rparr>"

definition frame_f :: Frame where
  "frame_f = \<lparr>Func = ''main.f'', Line = 10, Path = ''/a.go''\<rparr>"

definition frame_g :: Frame where
  "frame_g = \<lparr>Func = ''main.g'', Line = 20, Path = ''/a.go''\<rparr>"

section \<open>The capture loop\<close>

lemma trace_loop_None: "runtime_Caller rt skip = None \<Longrightarrow> trace_loop rt skip fs = fs"
  by (subst trace_loop.simps) simp

lemma trace_loop_Some:
  "runtime_Caller rt skip = Some (pc, path, line) \<Longrightarrow>
   trace_loop rt skip fs =
     trace_loop rt (Suc skip) (fs @ [\<lparr>Func = FuncForPC_Name rt pc, Line = line, Path = path\<rparr>])"
  by (subst trace_loop.simps) simp

lemma spec_capture_None:
  assumes "runtime_Caller rt skip = None"
  shows "spec_capture rt skip = []"
proof (cases "skip < length (stack rt)")
  case True
  with assms have "stack rt ! skip = None" by (simp add: runtime_Caller_def)
  with Cons_nth_drop_Suc [OF True] have "drop skip (stack rt) = None # drop (Suc skip) (stack rt)"
    by simp
  then show ?thesis by (simp add: spec_capture_def)
next
  case False
  then show ?thesis by (simp add: spec_capture_def)
qed

lemma spec_capture_Some:
  assumes "runtime_Caller rt skip = Some c"
  shows "spec_capture rt skip = frame_of rt c # spec_capture rt (Suc skip)"
proof -
  from assms have lt: "skip < length (stack rt)" and at: "stack rt ! skip = Some c"
    by (auto simp: runtime_Caller_def split: if_splits)
  from Cons_nth_drop_Suc [OF lt] at
  have "drop skip (stack rt) = Some c # drop (Suc skip) (stack rt)" by simp
  then show ?thesis by (cases c) (simp add: spec_capture_def)
qed

text \<open>The loop appends to what it was given exactly the frames of the specification.\<close>

lemma trace_loop_capture: "trace_loop rt skip fs = fs @ spec_capture rt skip"
proof (induction rt skip fs rule: trace_loop.induct)
  case (1 rt skip fs)
  show ?case
  proof (cases "runtime_Caller rt skip")
    case None
    then show ?thesis by (simp add: trace_loop_None spec_capture_None)
  next
    case (Some c)
    obtain pc path line where c: "c = (pc, path, line)" by (cases c) auto
    from Some c have call: "runtime_Caller rt skip = Some (pc, path, line)" by simp
    from "1.IH" [OF call refl refl]
    show ?thesis
      by (simp add: trace_loop_Some [OF call] spec_capture_Some [OF call] frame_of_def)
  qed
qed

lemma spec_capture_length: "length (spec_capture rt skip) \<le> length (stack rt) - skip"
proof -
  have "length (takeWhile (\<lambda>c. c \<noteq> None) (drop skip (stack rt))) \<le> length (drop skip (stack rt))"
    by (rule length_takeWhile_le)
  then show ?thesis by (simp add: spec_capture_def)
qed

text \<open>What \<open>make\<close> does, by the kind of capacity.\<close>

lemma make_frames_cases:
  "make_frames rt c =
     (if \<not> cap_in_range rt c then Inl MakesliceCapOutOfRange
      else if \<not> cap_allocatable rt c then Inl OutOfMemory
      else Inr [])"
  by (auto simp: make_frames_def cap_in_range_def cap_allocatable_def Let_def not_le not_less)

lemma trace_allocatable:
  "cap_allocatable rt c \<Longrightarrow>
   trace c rt e m k = Inr (Traced (Ptr (ErrorData e m (trace_loop rt k []))))"
  by (simp add: trace_def make_frames_cases cap_allocatable_def)

lemma trace_out_of_range:
  "\<not> cap_in_range rt c \<Longrightarrow> trace c rt e m k = Inl MakesliceCapOutOfRange"
  by (simp add: trace_def make_frames_cases)

lemma trace_not_allocatable:
  "\<not> cap_allocatable rt c \<Longrightarrow> \<exists>p. trace c rt e m k = Inl p"
  by (simp add: trace_def make_frames_cases)

lemma caps_at_f:
  "cap_allocatable stack_at_f 0" "cap_allocatable stack_at_f 20"
  "cap_allocatable stack_at_f 1000"
  "\<not> cap_in_range stack_at_f (- 1)"
  "\<not> cap_in_range stack_at_f 281474976710656"
  "\<not> cap_in_range stack_at_f 9223372036854775807"
  by (simp_all add: cap_allocatable_def cap_in_range_def stack_at_f_def sizeof_Frame_def)

lemma caps_at_h:
  "cap_allocatable stack_at_h 20"
  "\<not> cap_in_range stack_at_h (- 1)"
  "\<not> cap_in_range stack_at_h 281474976710656"
  "\<not> cap_in_range stack_at_h 9223372036854775807"
  by (simp_all add: cap_allocatable_def cap_in_range_def stack_at_h_def sizeof_Frame_def)

lemma capture_at_f: "trace_loop stack_at_f 2 [] = [frame_f, frame_g]"
  by (simp add: trace_loop_capture spec_capture_def frame_of_def FuncForPC_Name_def
      stack_at_f_def frame_f_def frame_g_def)

lemma caller_at_f_top: "runtime_Caller stack_at_f 4 = None"
  by (simp add: runtime_Caller_def stack_at_f_def)

lemma capture_at_h:
  "trace_loop stack_at_h 2 [] = [\<lparr>Func = [], Line = 7, Path = ''/b.go''\<rparr>]"
  by (simp add: trace_loop_capture spec_capture_def frame_of_def FuncForPC_Name_def
      stack_at_h_def)

section \<open>The rendering loop\<close>

lemma write_frames_rest:
  "fst (write_frames fs (b, False)) = b @ concat (map (\<lambda>f. nl @ tab @ Frame_String f) fs)"
  by (induction fs arbitrary: b) simp_all

lemma spec_join_Cons: "spec_join sep (x # xs) = x @ concat (map (\<lambda>y. sep @ y) xs)"
  by (induction sep xs arbitrary: x rule: spec_join.induct) simp_all

lemma write_frames_join:
  "fst (write_frames fs (b, True)) = b @ spec_join nl (map (\<lambda>f. tab @ Frame_String f) fs)"
proof (cases fs)
  case Nil
  then show ?thesis by simp
next
  case (Cons f rest)
  then show ?thesis
    by (simp add: write_frames_rest spec_join_Cons comp_def)
qed

lemma errorData_Error_text:
  "error_Error (err d) = Inr s \<Longrightarrow>
   errorData_Error d =
     Inr ((if message d \<noteq> [] then message d @ nl else []) @ s @ nl @
          spec_join nl (map (\<lambda>f. tab @ Frame_String f) (frames d)))"
  by (cases d) (simp add: Let_def errorData_StackTrace_def write_frames_join)

lemma has_text_iff:
  "error_has_text e \<longleftrightarrow> (\<exists>s. error_Error e = Inr s)"
  "Error_has_text t \<longleftrightarrow> (\<exists>s. Error_Error t = Inr s)"
  "errorData_has_text d \<longleftrightarrow> (\<exists>s. errorData_Error d = Inr s)"
  by (induction e and t and d) (auto simp: Let_def split: sum.splits)

lemma no_text_iff:
  "\<not> error_has_text e \<longleftrightarrow> error_Error e = Inl NilDereference"
  "\<not> Error_has_text t \<longleftrightarrow> Error_Error t = Inl NilDereference"
  "\<not> errorData_has_text d \<longleftrightarrow> errorData_Error d = Inl NilDereference"
  by (induction e and t and d) (auto simp: Let_def split: sum.splits)

text \<open>A value of this package is never its own stored original.\<close>

lemma nested_differs: "Traced (Ptr (ErrorData e m fs)) \<noteq> e"
proof
  assume "Traced (Ptr (ErrorData e m fs)) = e"
  then have "size (Traced (Ptr (ErrorData e m fs))) = size e" by simp
  then show False by simp
qed

section \<open>Properties of the package\<close>

subsection \<open>Wrapping twice\<close>

text \<open>
  C1. Let \<open>e\<close> be a non-nil error that does not have the three methods of \<open>Error\<close>.
  Running \<open>Wrap\<close> on the result of \<open>Wrap e m1\<close> gives what \<open>Wrap e m1\<close> alone gives.
  Whenever the first call returns a value \<open>w\<close>, the second call returns \<open>w\<close> itself,
  whatever the second note, the call stack at the second call and the value of
  \<open>DefaultCap\<close> then; \<open>w\<close> holds \<open>e\<close> as its original, \<open>m1\<close> as its message and the
  frames captured at the first call, so nothing is captured again and the note \<open>m2\<close>
  is dropped. The first call returns such a value whenever \<open>DefaultCap\<close> is a
  capacity that \<open>make\<close> can allocate.
\<close>

theorem wrap_idempotent:
  assumes "e \<noteq> NilErr" and "assert_Error e = None"
  shows "(case Wrap c1 rt1 e m1 of Inl p \<Rightarrow> Inl p | Inr w \<Rightarrow> Wrap c2 rt2 w m2) = Wrap c1 rt1 e m1
       \<and> (\<forall>w. Wrap c1 rt1 e m1 = Inr w \<longrightarrow>
              Wrap c2 rt2 w m2 = Inr w
            \<and> w = Traced (Ptr (ErrorData e m1 (trace_loop rt1 2 [])))
            \<and> Unwrap w = e
            \<and> StackTrace w = trace_loop rt1 2 [])
       \<and> (cap_allocatable rt1 c1 \<longrightarrow>
            Wrap c1 rt1 e m1 = Inr (Traced (Ptr (ErrorData e m1 (trace_loop rt1 2 [])))))"
proof (cases "cap_allocatable rt1 c1")
  case False
  from trace_not_allocatable [OF False] obtain p where "trace c1 rt1 e m1 2 = Inl p" by blast
  with assms have "Wrap c1 rt1 e m1 = Inl p"
    by (simp add: Wrap_def)
  with False show ?thesis by simp
next
  case True
  with assms
  have first: "Wrap c1 rt1 e m1 = Inr (Traced (Ptr (ErrorData e m1 (trace_loop rt1 2 []))))"
    by (simp add: Wrap_def trace_allocatable)
  have second: "Wrap c2 rt2 (Traced (Ptr (ErrorData e m1 (trace_loop rt1 2 [])))) m2
                  = Inr (Traced (Ptr (ErrorData e m1 (trace_loop rt1 2 []))))"
    by (simp add: Wrap_def)
  have un: "Unwrap (Traced (Ptr (ErrorData e m1 (trace_loop rt1 2 [])))) = e"
    by (simp add: Unwrap_def errorData_Unwrap_def)
  have st: "StackTrace (Traced (Ptr (ErrorData e m1 (trace_loop rt1 2 [])))) = trace_loop rt1 2 []"
    by (simp add: StackTrace_def errorData_StackTrace_def)
  from first second un st show ?thesis by simp
qed

text \<open>
  A run of C1: \<open>main.f\<close> wraps a plain error with the default capacity, then \<open>main.h\<close>
  wraps the result again, at another call stack and with \<open>DefaultCap\<close> set to \<open>-1\<close>.
\<close>

theorem wrap_idempotent_witness:
  "Plain ''boom'' \<noteq> NilErr \<and> assert_Error (Plain ''boom'') = None
   \<and> cap_allocatable stack_at_f 20
   \<and> Wrap 20 stack_at_f (Plain ''boom'') ''m1''
       = Inr (Traced (Ptr (ErrorData (Plain ''boom'') ''m1'' [frame_f, frame_g])))
   \<and> Wrap (- 1) stack_at_h (Traced (Ptr (ErrorData (Plain ''boom'') ''m1'' [frame_f, frame_g]))) ''m2''
       = Inr (Traced (Ptr (ErrorData (Plain ''boom'') ''m1'' [frame_f, frame_g])))"
  using wrap_idempotent [of "Plain ''boom''" 20 stack_at_f "''m1''" "- 1" stack_at_h "''m2''"]
  by (simp add: Wrap_def trace_allocatable caps_at_f capture_at_f)

subsection \<open>Wrapping nil\<close>

text \<open>
  C4. \<open>Wrap\<close> of the nil error returns nil, for every note, every call stack and every
  value of \<open>DefaultCap\<close>: it does not panic and builds no traced value.
\<close>

theorem wrap_nil: "Wrap c rt NilErr m = Inr NilErr"
  by (simp add: Wrap_def)

subsection \<open>Unwrapping and reading the trace\<close>

text \<open>
  C3. \<open>Unwrap\<close> returns nil for nil; for an error that has the three methods of \<open>Error\<close>
  it returns what the error's own \<open>Unwrap()\<close> returns, which for a value of this package
  is the stored original; every other error is returned as it is.
\<close>

theorem unwrap_cases:
  "Unwrap NilErr = NilErr
   \<and> (assert_Error e = Some t \<longrightarrow> Unwrap e = Error_Unwrap t)
   \<and> Unwrap (Traced (Ptr d)) = err d
   \<and> Unwrap (Traced (Foreign s fs inner)) = inner
   \<and> (e \<noteq> NilErr \<and> assert_Error e = None \<longrightarrow> Unwrap e = e)"
  by (cases e) (simp_all add: Unwrap_def errorData_Unwrap_def)

text \<open>C3 on a traced value of this package and on a plain error.\<close>

theorem unwrap_cases_witness:
  "assert_Error (Traced (Ptr (ErrorData (Plain ''boom'') ''ctx'' [frame_f])))
     = Some (Ptr (ErrorData (Plain ''boom'') ''ctx'' [frame_f]))
   \<and> Unwrap (Traced (Ptr (ErrorData (Plain ''boom'') ''ctx'' [frame_f]))) = Plain ''boom''
   \<and> Plain ''boom'' \<noteq> NilErr \<and> assert_Error (Plain ''boom'') = None
   \<and> Unwrap (Plain ''boom'') = Plain ''boom''"
  using unwrap_cases [of "Traced (Ptr (ErrorData (Plain ''boom'') ''ctx'' [frame_f]))"
      "Ptr (ErrorData (Plain ''boom'') ''ctx'' [frame_f])"]
    unwrap_cases [of "Plain ''boom''"]
  by (simp add: errorData_Unwrap_def)

text \<open>
  C5. \<open>StackTrace\<close> returns the empty sequence for every error that does not have the
  three methods of \<open>Error\<close> (nil included), and for an error that has them it returns
  what the error's own \<open>StackTrace()\<close> returns, which for a value of this package is
  the stored frame sequence.
\<close>

theorem stacktrace_cases:
  "(assert_Error e = None \<longrightarrow> StackTrace e = [])
   \<and> (assert_Error e = Some t \<longrightarrow> StackTrace e = Error_StackTrace t)
   \<and> StackTrace (Traced (Ptr d)) = frames d
   \<and> StackTrace (Traced (Foreign s fs inner)) = fs"
  by (simp add: StackTrace_def errorData_StackTrace_def)

text \<open>C5 on a plain error, on nil and on a traced value of this package.\<close>

theorem stacktrace_cases_witness:
  "assert_Error (Plain ''boom'') = None \<and> StackTrace (Plain ''boom'') = []
   \<and> assert_Error NilErr = None \<and> StackTrace NilErr = []
   \<and> assert_Error (Traced (Ptr (ErrorData (Plain ''boom'') ''ctx'' [frame_f, frame_g])))
        = Some (Ptr (ErrorData (Plain ''boom'') ''ctx'' [frame_f, frame_g]))
   \<and> StackTrace (Traced (Ptr (ErrorData (Plain ''boom'') ''ctx'' [frame_f, frame_g])))
        = [frame_f, frame_g]"
  using stacktrace_cases [of "Plain ''boom''"] stacktrace_cases [of NilErr]
    stacktrace_cases [of "Traced (Ptr (ErrorData (Plain ''boom'') ''ctx'' [frame_f, frame_g]))"
      "Ptr (ErrorData (Plain ''boom'') ''ctx'' [frame_f, frame_g])"]
  by (simp add: errorData_StackTrace_def)

subsection \<open>Rendering\<close>

text \<open>
  C2. Let the original error stored in a traced value of this package have a text \<open>s\<close>.
  Then \<open>Error()\<close> of the value returns: the message followed by a line break when the
  message is not empty and nothing for it when it is empty; then \<open>s\<close> followed by a line
  break; then, for each frame in order, a tab followed by \<open>path:line function()\<close>, with
  a line break between consecutive frames and none after the last. When the original has
  no text the call panics as the call on the original does. For the message \<open>ctx\<close>,
  the original text \<open>boom\<close> and the frames of \<open>main.f\<close> at \<open>/a.go:10\<close> and
  \<open>main.g\<close> at \<open>/a.go:20\<close> the result is the string of the specification.
\<close>

theorem render_format:
  "(error_Error (err d) = Inr s \<longrightarrow>
      errorData_Error d =
        Inr ((if message d \<noteq> [] then message d @ nl else []) @ s @ nl @
             spec_join nl
               (map (\<lambda>f. tab @ Path f @ '':'' @ fmt_d (Line f) @ '' '' @ Func f @ ''()'')
                  (frames d))))
   \<and> (error_Error (err d) = Inl p \<longrightarrow> errorData_Error d = Inl p)
   \<and> errorData_Error (ErrorData (Plain ''boom'') ''ctx''
        [\<lparr>Func = ''main.f'', Line = 10, Path = ''/a.go''\<rparr>,
         \<lparr>Func = ''main.g'', Line = 20, Path = ''/a.go''\<rparr>])
       = Inr (''ctx'' @ [CHR 0x0A] @ ''boom'' @ [CHR 0x0A] @ [CHR 0x09] @ ''/a.go:10 main.f()''
              @ [CHR 0x0A] @ [CHR 0x09] @ ''/a.go:20 main.g()'')"
proof -
  have general: "error_Error (err d) = Inr s \<longrightarrow>
      errorData_Error d =
        Inr ((if message d \<noteq> [] then message d @ nl else []) @ s @ nl @
             spec_join nl
               (map (\<lambda>f. tab @ Path f @ '':'' @ fmt_d (Line f) @ '' '' @ Func f @ ''()'')
                  (frames d)))"
    using errorData_Error_text [of d s] by (simp add: Frame_String_def)
  have failing: "error_Error (err d) = Inl p \<longrightarrow> errorData_Error d = Inl p"
    by (cases d) (simp add: Let_def)
  have example: "errorData_Error (ErrorData (Plain ''boom'') ''ctx''
        [\<lparr>Func = ''main.f'', Line = 10, Path = ''/a.go''\<rparr>,
         \<lparr>Func = ''main.g'', Line = 20, Path = ''/a.go''\<rparr>])
       = Inr (''ctx'' @ [CHR 0x0A] @ ''boom'' @ [CHR 0x0A] @ [CHR 0x09] @ ''/a.go:10 main.f()''
              @ [CHR 0x0A] @ [CHR 0x09] @ ''/a.go:20 main.g()'')"
    by (simp add: errorData_StackTrace_def Frame_String_def fmt_d_def decimal.simps digit_def
        nl_def tab_def)
  from general failing example show ?thesis by simp
qed

text \<open>
  C2 on a value without a message, whose original is a traced value of another package
  and whose first frame has a negative line number; and on a value whose original is nil.
\<close>

theorem render_format_witness:
  "error_Error (err (ErrorData (Traced (Foreign ''disk full'' [] NilErr)) []
       [\<lparr>Func = ''io.w'', Line = - 305, Path = ''x.go''\<rparr>, frame_g, frame_f]))
     = Inr ''disk full''
   \<and> errorData_Error (ErrorData (Traced (Foreign ''disk full'' [] NilErr)) []
       [\<lparr>Func = ''io.w'', Line = - 305, Path = ''x.go''\<rparr>, frame_g, frame_f])
     = Inr (''disk full'' @ [CHR 0x0A] @ [CHR 0x09] @ ''x.go:-305 io.w()''
              @ [CHR 0x0A] @ [CHR 0x09] @ ''/a.go:20 main.g()''
              @ [CHR 0x0A] @ [CHR 0x09] @ ''/a.go:10 main.f()'')
   \<and> error_Error (err (ErrorData NilErr ''ctx'' [frame_f])) = Inl NilDereference
   \<and> errorData_Error (ErrorData NilErr ''ctx'' [frame_f]) = Inl NilDereference"
  using render_format [of "ErrorData (Traced (Foreign ''disk full'' [] NilErr)) []
       [\<lparr>Func = ''io.w'', Line = - 305, Path = ''x.go''\<rparr>, frame_g, frame_f]" "''disk full''"]
    render_format [of "ErrorData NilErr ''ctx'' [frame_f]" _ NilDereference]
  by (simp add: fmt_d_def decimal.simps digit_def nl_def tab_def frame_f_def frame_g_def)

text \<open>
  The rendering is not there for every traced value: \<open>CustomError\<close> accepts nil as the
  original, and \<open>Error()\<close> on the value it builds calls a method on that nil original.
\<close>

theorem render_nil_original_counterexample:
  "assert_Error (CustomError NilErr [frame_f, frame_g])
     = Some (Ptr (ErrorData NilErr [] [frame_f, frame_g]))
   \<and> errorData_Error (ErrorData NilErr [] [frame_f, frame_g]) = Inl NilDereference"
  by (simp add: CustomError_def)

subsection \<open>Unwrapping and wrapping again\<close>

text \<open>
  C6. Let \<open>t\<close> be a traced value whose stored original is not nil and does not have the
  three methods of \<open>Error\<close>, and let \<open>DefaultCap\<close> be a capacity that \<open>make\<close>
  can allocate. Then
  \<open>Wrap (Unwrap t) note\<close> returns a new value of this package whose original is the
  original of \<open>t\<close>, whose message is \<open>note\<close> and whose frames are those the run-time
  system reports at this call from depth 2 on; the frames stored in \<open>t\<close> do not occur
  in the result.
\<close>

theorem rewrap_fresh_trace:
  assumes "Error_Unwrap t \<noteq> NilErr" and "assert_Error (Error_Unwrap t) = None"
    and "cap_allocatable rt c"
  shows "Wrap c rt (Unwrap (Traced t)) note
           = Inr (Traced (Ptr (ErrorData (Error_Unwrap t) note (trace_loop rt 2 []))))
       \<and> trace_loop rt 2 [] = spec_capture rt 2"
proof -
  have "Unwrap (Traced t) = Error_Unwrap t" by (simp add: Unwrap_def)
  with assms show ?thesis by (simp add: Wrap_def trace_allocatable trace_loop_capture)
qed

text \<open>
  A run of C6: a value traced in \<open>main.f\<close> is unwrapped and wrapped again in \<open>main.h\<close>,
  whose only recovered frame replaces the two stored ones.
\<close>

theorem rewrap_fresh_trace_witness:
  "Error_Unwrap (Ptr (ErrorData (Plain ''boom'') ''ctx'' [frame_f, frame_g])) \<noteq> NilErr
   \<and> assert_Error (Error_Unwrap (Ptr (ErrorData (Plain ''boom'') ''ctx'' [frame_f, frame_g]))) = None
   \<and> cap_allocatable stack_at_h 20
   \<and> Wrap 20 stack_at_h (Unwrap (Traced (Ptr (ErrorData (Plain ''boom'') ''ctx'' [frame_f, frame_g])))) ''note''
       = Inr (Traced (Ptr (ErrorData (Plain ''boom'') ''note'' [\<lparr>Func = [], Line = 7, Path = ''/b.go''\<rparr>])))"
  using rewrap_fresh_trace [of "Ptr (ErrorData (Plain ''boom'') ''ctx'' [frame_f, frame_g])"
      stack_at_h 20 "''note''"]
  by (simp add: errorData_Unwrap_def caps_at_h capture_at_h)

text \<open>
  Without the two conditions C6 fails. The value \<open>CustomError nil [frame_f]\<close> is traced
  and its stored original, nil, does not have the methods of \<open>Error\<close>; wrapping what
  \<open>Unwrap\<close> returns for it gives nil, not a traced value. And with \<open>DefaultCap\<close> set
  to \<open>-1\<close>, or to the largest \<open>int\<close>, the second wrap of a value with a plain
  original panics.
\<close>

theorem rewrap_counterexample:
  "assert_Error (Unwrap (CustomError NilErr [frame_f])) = None
   \<and> Wrap 20 stack_at_h (Unwrap (CustomError NilErr [frame_f])) ''note'' = Inr NilErr
   \<and> Wrap (- 1) stack_at_h (Unwrap (CustomError (Plain ''boom'') [frame_f])) ''note''
       = Inl MakesliceCapOutOfRange
   \<and> Wrap 9223372036854775807 stack_at_h (Unwrap (CustomError (Plain ''boom'') [frame_f])) ''note''
       = Inl MakesliceCapOutOfRange"
  by (simp add: CustomError_def Unwrap_def errorData_Unwrap_def Wrap_def trace_out_of_range
      caps_at_h)

subsection \<open>Which calls can panic\<close>

text \<open>
  C7. When \<open>DefaultCap\<close> is a capacity that \<open>make\<close> can allocate, \<open>Errorf\<close>,
  \<open>New\<close> and \<open>Newf\<close> return a traced value and \<open>Wrap\<close> and \<open>Wrapf\<close> return. \<open>Wrap\<close> of
  nil returns nil for every \<open>DefaultCap\<close>. \<open>CustomError\<close> returns a new traced value
  for every original and every frame sequence; \<open>Unwrap\<close> and \<open>StackTrace\<close> return on
  every error: on nil, on a plain error and on a traced one. \<open>Error()\<close> returns a string
  on every error that has a text, which is every error from which following the stored
  originals never arrives at nil. The capture loop returns no frame when the run-time
  system recovers nothing at the first depth, and never more frames than there are entries
  from that depth on.
\<close>

theorem operations_total:
  "(cap_allocatable rt c \<longrightarrow>
      (\<exists>t. Errorf sprintf c rt format args = Inr (Traced t))
    \<and> (\<exists>t. New sprintf c rt msg = Inr (Traced t))
    \<and> (\<exists>t. Newf sprintf c rt format args = Inr (Traced t))
    \<and> (\<exists>r. Wrap c rt e m = Inr r)
    \<and> (\<exists>r. Wrapf sprintf c rt e format args = Inr r))
   \<and> Wrap c rt NilErr m = Inr NilErr
   \<and> assert_Error (CustomError e fs) = Some (Ptr (ErrorData e [] fs))
   \<and> Unwrap e = (case e of NilErr \<Rightarrow> NilErr | Plain x \<Rightarrow> Plain x | Traced t \<Rightarrow> Error_Unwrap t)
   \<and> StackTrace e = (case e of NilErr \<Rightarrow> [] | Plain x \<Rightarrow> [] | Traced t \<Rightarrow> Error_StackTrace t)
   \<and> (error_has_text e \<longrightarrow> (\<exists>s. error_Error e = Inr s))
   \<and> (errorData_has_text d \<longrightarrow> (\<exists>s. errorData_Error d = Inr s))
   \<and> (runtime_Caller rt k = None \<longrightarrow> trace_loop rt k [] = [])
   \<and> length (trace_loop rt k []) \<le> length (stack rt) - k"
proof -
  have wrap: "cap_allocatable rt c \<Longrightarrow> \<exists>r. Wrap c rt e msg' = Inr r" for msg'
    by (cases e) (simp_all add: Wrap_def trace_allocatable)
  have ctor: "cap_allocatable rt c \<Longrightarrow>
      (\<exists>t. Errorf sprintf c rt format args = Inr (Traced t))
    \<and> (\<exists>t. New sprintf c rt msg = Inr (Traced t))
    \<and> (\<exists>t. Newf sprintf c rt format args = Inr (Traced t))"
    by (simp add: Errorf_def New_def Newf_def trace_allocatable)
  have pure: "assert_Error (CustomError e fs) = Some (Ptr (ErrorData e [] fs))
    \<and> Unwrap e = (case e of NilErr \<Rightarrow> NilErr | Plain x \<Rightarrow> Plain x | Traced t \<Rightarrow> Error_Unwrap t)
    \<and> StackTrace e = (case e of NilErr \<Rightarrow> [] | Plain x \<Rightarrow> [] | Traced t \<Rightarrow> Error_StackTrace t)"
    by (cases e) (simp_all add: CustomError_def Unwrap_def StackTrace_def)
  have len: "length (trace_loop rt k []) \<le> length (stack rt) - k"
    using spec_capture_length [of rt k] by (simp add: trace_loop_capture)
  have render: "(error_has_text e \<longrightarrow> (\<exists>s. error_Error e = Inr s))
    \<and> (errorData_has_text d \<longrightarrow> (\<exists>s. errorData_Error d = Inr s))"
    by (simp add: has_text_iff)
  have loop: "runtime_Caller rt k = None \<longrightarrow> trace_loop rt k [] = []"
    by (simp add: trace_loop_None)
  have nil: "Wrap c rt NilErr m = Inr NilErr"
    by (simp add: Wrap_def)
  from wrap [of m] wrap [of "sprintf format args"] ctor pure len render loop nil
  show ?thesis unfolding Wrapf_def by blast
qed

text \<open>
  A run of C7 with \<open>DefaultCap\<close> set to 0, on a value built by \<open>CustomError\<close> around a
  plain error, and at the depth just past the last entry of the stack.
\<close>

theorem operations_total_witness:
  "cap_allocatable stack_at_f 0
   \<and> Wrap 0 stack_at_f (Plain ''boom'') ''ctx''
       = Inr (Traced (Ptr (ErrorData (Plain ''boom'') ''ctx'' [frame_f, frame_g])))
   \<and> error_has_text (CustomError (Plain ''boom'') [])
   \<and> error_Error (CustomError (Plain ''boom'') []) = Inr (''boom'' @ [CHR 0x0A])
   \<and> errorData_has_text (ErrorData (Plain ''boom'') [] [])
   \<and> runtime_Caller stack_at_f 4 = None
   \<and> trace_loop stack_at_f 4 [] = []"
  using operations_total [where rt = stack_at_f and c = 0
      and sprintf = "\<lambda>(f::string) (a::string list). f" and format = "''x''" and args = "[]"
      and msg = "''x''" and e = "CustomError (Plain ''boom'') []" and m = "''ctx''" and fs = "[]"
      and d = "ErrorData (Plain ''boom'') [] []" and k = 4]
  by (simp add: Wrap_def trace_allocatable caps_at_f capture_at_f CustomError_def
      errorData_StackTrace_def nl_def caller_at_f_top)

text \<open>
  Calls that panic: \<open>Wrap\<close> of a plain error when \<open>DefaultCap\<close> is \<open>-1\<close>, when it is
  \<open>2 ^ 48\<close> and when it is the largest \<open>int\<close>, where \<open>make\<close> is given a capacity out
  of range; and \<open>Error()\<close> on the value that \<open>CustomError\<close> builds around nil, where a
  method is called on the nil original.
\<close>

theorem operations_fail_counterexample:
  "Wrap (- 1) stack_at_f (Plain ''boom'') ''ctx'' = Inl MakesliceCapOutOfRange
   \<and> Wrap 281474976710656 stack_at_f (Plain ''boom'') ''ctx'' = Inl MakesliceCapOutOfRange
   \<and> Wrap 9223372036854775807 stack_at_f (Plain ''boom'') ''ctx'' = Inl MakesliceCapOutOfRange
   \<and> error_Error (CustomError NilErr [frame_f]) = Inl NilDereference"
  by (simp add: Wrap_def trace_out_of_range caps_at_f CustomError_def)

subsection \<open>The capacity hint\<close>

text \<open>
  C8. For any two values of \<open>DefaultCap\<close> that \<open>make\<close> can allocate (not negative,
  with a size in bytes within 64 bits and within \<open>maxAlloc\<close>, and with memory of that
  size provided) and the same call stack, \<open>trace\<close> returns the same value, whose frames are those the run-time
  system reports from depth \<open>k\<close> on; hence \<open>Errorf\<close>, \<open>New\<close>, \<open>Newf\<close>, \<open>Wrap\<close>
  and \<open>Wrapf\<close> return the same under both values.
\<close>

theorem capacity_noninterference:
  assumes "cap_allocatable rt c1" and "cap_allocatable rt c2"
  shows "trace c1 rt e m k = trace c2 rt e m k
       \<and> trace c1 rt e m k = Inr (Traced (Ptr (ErrorData e m (spec_capture rt k))))
       \<and> Errorf sprintf c1 rt format args = Errorf sprintf c2 rt format args
       \<and> New sprintf c1 rt msg = New sprintf c2 rt msg
       \<and> Newf sprintf c1 rt format args = Newf sprintf c2 rt format args
       \<and> Wrap c1 rt e m = Wrap c2 rt e m
       \<and> Wrapf sprintf c1 rt e format args = Wrapf sprintf c2 rt e format args"
  using assms
  by (simp add: Errorf_def New_def Newf_def Wrapf_def Wrap_def trace_allocatable trace_loop_capture
      split: option.splits)

text \<open>A run of C8 with the capacities 0 and 1000.\<close>

theorem capacity_noninterference_witness:
  "cap_allocatable stack_at_f 0 \<and> cap_allocatable stack_at_f 1000
   \<and> trace 0 stack_at_f (Plain ''boom'') ''ctx'' 2 = trace 1000 stack_at_f (Plain ''boom'') ''ctx'' 2
   \<and> trace 1000 stack_at_f (Plain ''boom'') ''ctx'' 2
       = Inr (Traced (Ptr (ErrorData (Plain ''boom'') ''ctx'' [frame_f, frame_g])))"
  using capacity_noninterference [where rt = stack_at_f and ?c1.0 = 0 and ?c2.0 = 1000
      and e = "Plain ''boom''" and m = "''ctx''" and k = 2
      and sprintf = "\<lambda>(f::string) (a::string list). f" and format = "''x''" and args = "[]"
      and msg = "''x''"]
  by (simp add: trace_allocatable caps_at_f capture_at_f)

text \<open>
  Not every value from 0 on is such a capacity. The default 20 and the largest \<open>int\<close>
  are both non-negative; with the first \<open>trace\<close> returns the two frames, with the second
  \<open>make\<close> panics, and so does it with \<open>2 ^ 48\<close>.
\<close>

theorem capacity_interference_counterexample:
  "0 \<le> sint (20 :: 64 word)
   \<and> 0 \<le> sint (9223372036854775807 :: 64 word)
   \<and> 0 \<le> sint (281474976710656 :: 64 word)
   \<and> trace 20 stack_at_f (Plain ''boom'') ''ctx'' 2
       = Inr (Traced (Ptr (ErrorData (Plain ''boom'') ''ctx'' [frame_f, frame_g])))
   \<and> trace 9223372036854775807 stack_at_f (Plain ''boom'') ''ctx'' 2
       = Inl MakesliceCapOutOfRange
   \<and> trace 281474976710656 stack_at_f (Plain ''boom'') ''ctx'' 2
       = Inl MakesliceCapOutOfRange"
  by (simp add: trace_allocatable trace_out_of_range caps_at_f capture_at_f)

subsection \<open>Errors with supplied frames\<close>

text \<open>
  C9. For every error \<open>e\<close> (nil and traced ones included) and every frame sequence
  \<open>fs\<close>, \<open>CustomError e fs\<close> is a traced value of this package whose \<open>StackTrace\<close> is
  \<open>fs\<close> and whose \<open>Unwrap\<close> is \<open>e\<close>. It captures nothing: \<open>CustomError\<close> neither
  queries the run-time system nor reads \<open>DefaultCap\<close>, so it has neither as a parameter.
\<close>

theorem custom_error_verbatim:
  "StackTrace (CustomError e fs) = fs
   \<and> Unwrap (CustomError e fs) = e
   \<and> assert_Error (CustomError e fs) = Some (Ptr (ErrorData e [] fs))"
  by (simp add: CustomError_def StackTrace_def Unwrap_def errorData_StackTrace_def
      errorData_Unwrap_def)

text \<open>
  C10. \<open>CustomError\<close> has none of the guards of \<open>Wrap\<close>: for every original, nil and
  traced ones included, it builds a new value of this package around it, with the empty
  message. Around a traced original the result is a value other than the original, which
  \<open>Wrap\<close> would have returned as it is; a value built twice carries two traces, the
  outer one read by \<open>StackTrace\<close> and the inner one still in the original.
\<close>

theorem custom_error_unguarded:
  "CustomError orig fs = Traced (Ptr (ErrorData orig [] fs))
   \<and> CustomError NilErr fs = Traced (Ptr (ErrorData NilErr [] fs))
   \<and> CustomError (Traced t) fs = Traced (Ptr (ErrorData (Traced t) [] fs))
   \<and> CustomError (Traced t) fs \<noteq> Traced t
   \<and> Wrap c rt (Traced t) m = Inr (Traced t)
   \<and> StackTrace (CustomError (CustomError orig fs') fs) = fs
   \<and> StackTrace (Unwrap (CustomError (CustomError orig fs') fs)) = fs'"
  by (simp add: CustomError_def Wrap_def StackTrace_def Unwrap_def errorData_StackTrace_def
      errorData_Unwrap_def nested_differs)

end
